theory Spec2Isabelle
  imports Complex_Main "HOL-Library.Log_Nat"
begin

section \<open>JavaScript numbers\<close>

text \<open>
  The aggregator of \<^verbatim>\<open>scripts/data.js\<close> computes a percentage as
  \<^verbatim>\<open>Math.round((points / possible) * 100)\<close>.  Both operators work on IEEE-754
  binary64 numbers: each returns the double nearest to the exact result, ties to the even
  mantissa.  The counters themselves are sums of small integers, which doubles represent
  exactly below \<open>2 ^ 53\<close>, so they are modelled as \<open>int\<close>; the quotient and the product are
  rounded explicitly by \<open>fl64\<close>.  Doubles are represented by the rational number they denote
  (exponent range and signed zero play no part in a quotient of two counters).
\<close>

definition pow2 :: "int \<Rightarrow> rat" where
  "pow2 e = (if 0 \<le> e then 2 ^ nat e else 1 / 2 ^ nat (- e))"

definition round_half_even :: "rat \<Rightarrow> int" where
  "round_half_even x =
     (let f = \<lfloor>x\<rfloor>; r = x - of_int f
      in if r < 1 / 2 then f else if 1 / 2 < r then f + 1 else if even f then f else f + 1)"

definition binade :: "rat \<Rightarrow> int" where
  \<comment> \<open>the exponent \<open>e\<close> with \<open>2 ^ e \<le> x < 2 ^ (e + 1)\<close>, for positive \<open>x\<close>\<close>
  "binade x =
     (let (a, b) = quotient_of x; d = bitlen a - bitlen b
      in if pow2 d \<le> x then d else d - 1)"

definition fl64 :: "rat \<Rightarrow> rat" where
  \<comment> \<open>round to the nearest number with a 53-bit mantissa, ties to even\<close>
  "fl64 x =
     (if x = 0 then 0
      else let e = binade \<bar>x\<bar> - 52
           in sgn x * of_int (round_half_even (\<bar>x\<bar> / pow2 e)) * pow2 e)"

definition Math_round :: "rat \<Rightarrow> int" where
  \<comment> \<open>\<^verbatim>\<open>Math.round\<close>: the nearest integer, a tie going up\<close>
  "Math_round x = \<lfloor>x + 1 / 2\<rfloor>"

definition round_half_up :: "rat \<Rightarrow> int" where
  \<comment> \<open>the rounding the specification names, on the exact ratio\<close>
  "round_half_up x = \<lfloor>x + 1 / 2\<rfloor>"

section \<open>Data model\<close>

text \<open>
  A matrix cell holds what \<^verbatim>\<open>saveMatrixCell\<close> documents as \<^verbatim>\<open>number|boolean\<close>, or
  \<^verbatim>\<open>null\<close>; an absent cell (\<^verbatim>\<open>undefined\<close>) is \<open>None\<close> in the map.  The numbers are
  the integers a stepper writes.  A period's \<open>am\<close> is its is-morning flag, tested for
  truthiness by the code; a goal's \<open>kind\<close> is the string the code compares.
\<close>

datatype cellval = CNull | CBool bool | CNum int

definition Number_of :: "cellval \<Rightarrow> int" where
  \<comment> \<open>\<^verbatim>\<open>Number(value)\<close>\<close>
  "Number_of v = (case v of CNull \<Rightarrow> 0 | CBool b \<Rightarrow> (if b then 1 else 0) | CNum n \<Rightarrow> n)"

definition truthy :: "cellval \<Rightarrow> bool" where
  \<comment> \<open>the test of \<^verbatim>\<open>value ? 1 : 0\<close>\<close>
  "truthy v = (case v of CNull \<Rightarrow> False | CBool b \<Rightarrow> b | CNum n \<Rightarrow> n \<noteq> 0)"

record period =
  p_id :: string
  p_label :: string
  am :: bool

record goal =
  g_id :: string
  g_label :: string
  kind :: string

text \<open>
  A plan document.  A field the code guards (\<^verbatim>\<open>plan.schedule || []\<close>) or dereferences
  (\<^verbatim>\<open>plan.planType.includes\<close>) may be missing from the stored document: \<open>None\<close>.
\<close>

record plan =
  planType :: "string option"
  schedule :: "period list option"
  goals :: "goal list option"

type_synonym matrix = "string \<rightharpoonup> (string \<rightharpoonup> cellval)"

record totals =
  pct :: int
  amPct :: "int option"
  pmPct :: "int option"

record incident =
  inc_id :: string
  inc_label :: string
  inc_colorHex :: string
  inc_note :: "string option"
  inc_ts :: nat
  inc_source :: string

text \<open>
  A day document.  \<open>matrix\<close>, \<open>totals\<close>, \<open>comments\<close>, \<open>incidents\<close> and \<open>lastModified\<close> are the
  fields the code reads; \<open>other_fields\<close> holds every other top-level field under its literal name.
\<close>

record day =
  matrix :: "matrix option"
  totals :: "totals option"
  comments_teacher :: "string option"
  comments_specials :: "string \<rightharpoonup> string"
  incidents :: "incident list option"
  lastModified :: "nat option"
  other_fields :: "string \<rightharpoonup> cellval"

definition empty_day :: day where
  "empty_day = \<lparr>matrix = None, totals = None, comments_teacher = None,
     comments_specials = Map.empty, incidents = None, lastModified = None,
     other_fields = Map.empty\<rparr>"

record audit_ctx =
  actedBy :: string
  asRole :: string
  asUserId :: string

datatype details =
    CellDetails string string cellval
  | CommentDetails string nat
  | IncidentDetails string string bool

record audit_entry =
  ts :: nat
  ctx :: audit_ctx
  action :: string
  target :: string
  details :: details

section \<open>The aggregator\<close>

record acc =
  totalPoints :: int
  totalPossible :: int
  amPoints :: int
  amPossible :: int
  pmPoints :: int
  pmPossible :: int

definition acc0 :: acc where
  "acc0 = \<lparr>totalPoints = 0, totalPossible = 0, amPoints = 0, amPossible = 0,
     pmPoints = 0, pmPossible = 0\<rparr>"

definition add_points :: "period \<Rightarrow> int \<Rightarrow> int \<Rightarrow> acc \<Rightarrow> acc" where
  \<comment> \<open>the six updates shared by the two branches of the inner loop\<close>
  "add_points period earned possible a =
     (let a' = a\<lparr>totalPoints := totalPoints a + earned,
                 totalPossible := totalPossible a + possible\<rparr>
      in if am period
         then a'\<lparr>amPoints := amPoints a + earned, amPossible := amPossible a + possible\<rparr>
         else a'\<lparr>pmPoints := pmPoints a + earned, pmPossible := pmPossible a + possible\<rparr>)"

definition score_cell :: "period \<Rightarrow> goal \<Rightarrow> cellval option \<Rightarrow> acc \<Rightarrow> acc" where
  "score_cell period goal value a =
     (case value of
        None \<Rightarrow> a
      | Some CNull \<Rightarrow> a
      | Some v \<Rightarrow>
          if kind goal = ''stepper'' then add_points period (Number_of v) 2 a
          else if kind goal = ''checkbox'' then add_points period (if truthy v then 1 else 0) 1 a
          else a)"

definition score_period :: "goal list \<Rightarrow> matrix \<Rightarrow> period \<Rightarrow> acc \<Rightarrow> acc" where
  "score_period gs m period a =
     (let periodData = (case m (p_id period) of None \<Rightarrow> Map.empty | Some pd \<Rightarrow> pd)
      in fold (\<lambda>goal. score_cell period goal (periodData (g_id goal))) gs a)"

definition scheduleOf :: "plan \<Rightarrow> period list" where
  \<comment> \<open>\<^verbatim>\<open>plan.schedule || []\<close>\<close>
  "scheduleOf plan = (case schedule plan of None \<Rightarrow> [] | Some ps \<Rightarrow> ps)"

definition goalsOf :: "plan \<Rightarrow> goal list" where
  \<comment> \<open>\<^verbatim>\<open>plan.goals || []\<close>\<close>
  "goalsOf plan = (case goals plan of None \<Rightarrow> [] | Some gs \<Rightarrow> gs)"

definition matrixOf :: "day \<Rightarrow> matrix" where
  \<comment> \<open>\<^verbatim>\<open>dayData.matrix || {}\<close>\<close>
  "matrixOf d = (case matrix d of None \<Rightarrow> Map.empty | Some m \<Rightarrow> m)"

definition tally :: "plan \<Rightarrow> matrix \<Rightarrow> acc" where
  \<comment> \<open>the two nested loops of \<^verbatim>\<open>recalculateDayTotals\<close>\<close>
  "tally plan m = fold (score_period (goalsOf plan) m) (scheduleOf plan) acc0"

definition pct_of :: "int \<Rightarrow> int \<Rightarrow> int" where
  \<comment> \<open>\<^verbatim>\<open>possible > 0 ? Math.round((points / possible) * 100) : 0\<close>\<close>
  "pct_of points possible =
     (if possible > 0
      then Math_round (fl64 (fl64 (of_int points / of_int possible) * 100))
      else 0)"

fun str_includes :: "string \<Rightarrow> string \<Rightarrow> bool" where
  \<comment> \<open>\<^verbatim>\<open>String.prototype.includes\<close>: the second string occurs somewhere in the first\<close>
  "str_includes [] t = (t = [])"
| "str_includes (c # s) t = (take (length t) (c # s) = t \<or> str_includes s t)"

datatype js_error = TypeError | NotFound

definition compute_totals :: "plan \<Rightarrow> matrix \<Rightarrow> js_error + totals" where
  \<comment> \<open>lines 329 to 378: the tally, then the totals object\<close>
  "compute_totals plan m =
     (let a = tally plan m;
          t = \<lparr>pct = pct_of (totalPoints a) (totalPossible a), amPct = None, pmPct = None\<rparr>
      in case planType plan of
           None \<Rightarrow> Inl TypeError
         | Some ty \<Rightarrow>
             if str_includes ty ''AMPM''
             then Inr (t\<lparr>amPct := Some (pct_of (amPoints a) (amPossible a)),
                         pmPct := Some (pct_of (pmPoints a) (pmPossible a))\<rparr>)
             else Inr t)"

section \<open>The document store\<close>

text \<open>
  Documents are addressed by their path segments, as \<^verbatim>\<open>doc(db, 'schools', schoolId, ...)\<close>
  builds them.  The store keeps the plan and day documents, the audit collections, the
  server's clock (which resolves \<^verbatim>\<open>serverTimestamp()\<close> when a write commits) and
  \<open>requests\<close>, the sequence of requests it has received.  The database client's own rules are:
  \<^item> \<^verbatim>\<open>setDoc(ref, data, {merge: true})\<close> creates the document when it is absent and
    otherwise replaces only the fields of \<^verbatim>\<open>data\<close>;
  \<^item> \<^verbatim>\<open>updateDoc(ref, data)\<close> fails with not-found when the document is absent; its keys
    are dotted field paths into nested maps;
  \<^item> \<^verbatim>\<open>addDoc(coll, data)\<close> appends a new document to the collection.
  Failures of the network or of access rules are outside the model.

  \<^verbatim>\<open>saveMatrixCell\<close> hands \<^verbatim>\<open>setDoc\<close> the dotted key \<^verbatim>\<open>matrix.<period>.<goal>\<close>.  The
  client is not part of the repository; it parses field paths in \<^verbatim>\<open>updateDoc\<close> only and
  keeps a key of \<^verbatim>\<open>setDoc\<close> as the name of one top-level field.  The store's flag
  \<open>dottedSetKeys\<close> says whether \<^verbatim>\<open>setDoc\<close> resolves such a key into the nested maps
  instead (\<open>False\<close> for the client as it is); the theorems about the writers are proved
  for either value.
\<close>

datatype request =
    GetDoc "string list"
  | SetDocMerge "string list" "string list"
  | UpdateDoc "string list" "string list"
  | AddDoc "string list" audit_entry

record store =
  plans :: "string list \<rightharpoonup> plan"
  days :: "string list \<rightharpoonup> day"
  audit_logs :: "string list \<Rightarrow> audit_entry list"
  serverTime :: nat
  requests :: "request list"
  dottedSetKeys :: bool

definition planRef :: "string \<Rightarrow> string \<Rightarrow> string list" where
  "planRef schoolId planId = [''schools'', schoolId, ''plans'', planId]"

definition dayRef :: "string \<Rightarrow> string \<Rightarrow> string \<Rightarrow> string list" where
  "dayRef schoolId planId dayKey = [''schools'', schoolId, ''plans'', planId, ''days'', dayKey]"

definition auditRef :: "string \<Rightarrow> string list" where
  "auditRef schoolId = [''schools'', schoolId, ''audit_logs'']"

definition getDoc :: "string list \<Rightarrow> store \<Rightarrow> store" where
  \<comment> \<open>a read leaves the documents alone; the snapshot is taken from the store by the caller\<close>
  "getDoc ref s = s\<lparr>requests := requests s @ [GetDoc ref]\<rparr>"

definition setDoc_merge :: "string list \<Rightarrow> string list \<Rightarrow> (nat \<Rightarrow> day \<Rightarrow> day) \<Rightarrow> store \<Rightarrow> store" where
  "setDoc_merge ref keys upd s =
     s\<lparr>days := (days s)(ref \<mapsto>
            upd (serverTime s) (case days s ref of None \<Rightarrow> empty_day | Some d \<Rightarrow> d)),
       serverTime := Suc (serverTime s),
       requests := requests s @ [SetDocMerge ref keys]\<rparr>"

definition updateDoc ::
  "string list \<Rightarrow> string list \<Rightarrow> (nat \<Rightarrow> day \<Rightarrow> day) \<Rightarrow> store \<Rightarrow> (js_error + unit) \<times> store" where
  "updateDoc ref keys upd s =
     (case days s ref of
        None \<Rightarrow> (Inl NotFound, s\<lparr>requests := requests s @ [UpdateDoc ref keys]\<rparr>)
      | Some d \<Rightarrow>
          (Inr (), s\<lparr>days := (days s)(ref \<mapsto> upd (serverTime s) d),
                     serverTime := Suc (serverTime s),
                     requests := requests s @ [UpdateDoc ref keys]\<rparr>))"

definition audit :: "string \<Rightarrow> audit_ctx \<Rightarrow> string \<Rightarrow> string \<Rightarrow> details \<Rightarrow> store \<Rightarrow> store" where
  \<comment> \<open>\<^verbatim>\<open>addDoc(collection(...,'audit_logs'), {ts: serverTimestamp(), ...entry})\<close>\<close>
  "audit schoolId c act tgt det s =
     (let e = \<lparr>ts = serverTime s, ctx = c, action = act, target = tgt, details = det\<rparr>
      in s\<lparr>audit_logs := (audit_logs s)(auditRef schoolId := audit_logs s (auditRef schoolId) @ [e]),
           serverTime := Suc (serverTime s),
           requests := requests s @ [AddDoc (auditRef schoolId) e]\<rparr>)"

section \<open>The writers of scripts/data.js\<close>

definition recalculateDayTotals ::
  "string \<Rightarrow> string \<Rightarrow> string \<Rightarrow> store \<Rightarrow> (js_error + unit) \<times> store" where
  "recalculateDayTotals schoolId planId dayKey s =
     (let s1 = getDoc (planRef schoolId planId) s
      in case plans s1 (planRef schoolId planId) of
           None \<Rightarrow> (Inr (), s1)
         | Some plan \<Rightarrow>
             let s2 = getDoc (dayRef schoolId planId dayKey) s1
             in case days s2 (dayRef schoolId planId dayKey) of
                  None \<Rightarrow> (Inr (), s2)
                | Some dayData \<Rightarrow>
                    (case compute_totals plan (matrixOf dayData) of
                       Inl e \<Rightarrow> (Inl e, s2)
                     | Inr t \<Rightarrow>
                         updateDoc (dayRef schoolId planId dayKey) [''totals'']
                           (\<lambda>now d. d\<lparr>totals := Some t\<rparr>) s2))"

definition cellKey :: "string \<Rightarrow> string \<Rightarrow> string" where
  \<comment> \<open>the computed key \<^verbatim>\<open>`matrix.${periodId}.${goalId}`\<close>\<close>
  "cellKey periodId goalId = ''matrix.'' @ periodId @ ''.'' @ goalId"

definition writeCell :: "bool \<Rightarrow> string \<Rightarrow> string \<Rightarrow> cellval \<Rightarrow> day \<Rightarrow> day" where
  \<comment> \<open>the field \<^verbatim>\<open>[`matrix.${periodId}.${goalId}`]: value\<close> merged into the day\<close>
  "writeCell nested periodId goalId value d =
     (if nested
      then d\<lparr>matrix := Some ((matrixOf d)(periodId \<mapsto>
               (case matrixOf d periodId of None \<Rightarrow> Map.empty | Some pd \<Rightarrow> pd)
                 (goalId \<mapsto> value)))\<rparr>
      else d\<lparr>other_fields := (other_fields d)(cellKey periodId goalId \<mapsto> value)\<rparr>)"

definition cellStored :: "bool \<Rightarrow> string \<Rightarrow> string \<Rightarrow> day \<Rightarrow> cellval option" where
  \<comment> \<open>what the day holds under that key\<close>
  "cellStored nested periodId goalId d =
     (if nested
      then (case matrixOf d periodId of None \<Rightarrow> None | Some pd \<Rightarrow> pd goalId)
      else other_fields d (cellKey periodId goalId))"

definition targetOf :: "string \<Rightarrow> string \<Rightarrow> string" where
  \<comment> \<open>\<^verbatim>\<open>`${planId}/${dayKey}`\<close>\<close>
  "targetOf planId dayKey = planId @ ''/'' @ dayKey"

definition saveMatrixCell ::
  "string \<Rightarrow> string \<Rightarrow> string \<Rightarrow> string \<Rightarrow> string \<Rightarrow> cellval \<Rightarrow> audit_ctx \<Rightarrow> store
     \<Rightarrow> (js_error + unit) \<times> store" where
  "saveMatrixCell schoolId planId dayKey periodId goalId value c s =
     (let s1 = setDoc_merge (dayRef schoolId planId dayKey)
                 [cellKey periodId goalId, ''lastModified'']
                 (\<lambda>now d. (writeCell (dottedSetKeys s) periodId goalId value d)
                              \<lparr>lastModified := Some now\<rparr>) s
      in case recalculateDayTotals schoolId planId dayKey s1 of
           (Inl e, s2) \<Rightarrow> (Inl e, s2)
         | (Inr u, s2) \<Rightarrow>
             (Inr (), audit schoolId c ''matrix_cell_update'' (targetOf planId dayKey)
                        (CellDetails periodId goalId value) s2))"

definition saveComment ::
  "string \<Rightarrow> string \<Rightarrow> string \<Rightarrow> string \<Rightarrow> string \<Rightarrow> audit_ctx \<Rightarrow> store
     \<Rightarrow> (js_error + unit) \<times> store" where
  \<comment> \<open>the text is the list of its code units, so \<^verbatim>\<open>text.length\<close> is \<open>length text\<close>\<close>
  "saveComment schoolId planId dayKey role text c s =
     (case (if role = ''teacher''
            then updateDoc (dayRef schoolId planId dayKey) [''comments.teacher'', ''lastModified'']
                   (\<lambda>now d. d\<lparr>comments_teacher := Some text, lastModified := Some now\<rparr>) s
            else updateDoc (dayRef schoolId planId dayKey)
                   [''comments.specials.'' @ role, ''lastModified'']
                   (\<lambda>now d. d\<lparr>comments_specials := (comments_specials d)(role \<mapsto> text),
                                lastModified := Some now\<rparr>) s) of
        (Inl e, s1) \<Rightarrow> (Inl e, s1)
      | (Inr u, s1) \<Rightarrow>
          (Inr (), audit schoolId c ''comment_save'' (targetOf planId dayKey)
                     (CommentDetails role (length text)) s1))"

subsection \<open>Incident ids\<close>

text \<open>
  \<^verbatim>\<open>`inc_${Date.now()}_${Math.random().toString(36).substr(2, 9)}`\<close>.  The digits that
  \<^verbatim>\<open>Number.prototype.toString\<close> prints for a radix other than ten are left to the engine
  by the language standard, so the writer takes the string \<open>rnd36\<close> that
  \<^verbatim>\<open>Math.random().toString(36)\<close> returned as it is: \<^verbatim>\<open>0.i\<close> when the random number is
  0.5, \<^verbatim>\<open>0\<close> when it is 0, \<^verbatim>\<open>0.1\<close> when it is the double nearest to 1/36,
  \<^verbatim>\<open>0.3lllllllllm\<close> when it is 0.1.
\<close>

function dec :: "nat \<Rightarrow> string" where
  "dec n = (if n < 10 then [''0123456789'' ! n]
            else dec (n div 10) @ [''0123456789'' ! (n mod 10)])"
  by pat_completeness auto
termination
  by (relation "measure id") auto

definition base36 :: string where
  "base36 = ''0123456789abcdefghijklmnopqrstuvwxyz''"

definition substr :: "string \<Rightarrow> nat \<Rightarrow> nat \<Rightarrow> string" where
  \<comment> \<open>\<^verbatim>\<open>s.substr(start, len)\<close> for a start and a length that are not negative\<close>
  "substr s start len = take len (drop start s)"

definition randomSuffix :: "string \<Rightarrow> string" where
  "randomSuffix rnd36 = substr rnd36 2 9"

definition incidentId :: "nat \<Rightarrow> string \<Rightarrow> string" where
  "incidentId now rnd36 = ''inc_'' @ dec now @ ''_'' @ randomSuffix rnd36"

record button =
  b_id :: string
  b_label :: string
  b_colorHex :: string

definition logCustomIncident ::
  "string \<Rightarrow> string \<Rightarrow> string \<Rightarrow> button \<Rightarrow> string option \<Rightarrow> string \<Rightarrow> audit_ctx
     \<Rightarrow> nat \<Rightarrow> string \<Rightarrow> nat \<Rightarrow> store \<Rightarrow> (js_error + unit) \<times> store" where
  \<comment> \<open>\<open>now1\<close> and \<open>now2\<close> are the two readings of \<^verbatim>\<open>Date.now()\<close>,
      \<open>rnd36\<close> is \<^verbatim>\<open>Math.random().toString(36)\<close>\<close>
  "logCustomIncident schoolId planId dayKey btn note source c now1 rnd36 now2 s =
     (let incident = \<lparr>inc_id = incidentId now1 rnd36,
                       inc_label = b_label btn,
                       inc_colorHex = b_colorHex btn,
                       inc_note = (case note of None \<Rightarrow> None
                                   | Some n \<Rightarrow> if n = [] then None else Some n),
                       inc_ts = now2,
                       inc_source = source\<rparr>;
          s1 = getDoc (dayRef schoolId planId dayKey) s;
          currentIncidents =
            (case days s1 (dayRef schoolId planId dayKey) of
               None \<Rightarrow> []
             | Some d \<Rightarrow> (case incidents d of None \<Rightarrow> [] | Some xs \<Rightarrow> xs));
          s2 = setDoc_merge (dayRef schoolId planId dayKey) [''incidents'', ''lastModified'']
                 (\<lambda>now d. d\<lparr>incidents := Some (currentIncidents @ [incident]),
                              lastModified := Some now\<rparr>) s1
      in (Inr (), audit schoolId c ''incident_log'' (targetOf planId dayKey)
                    (IncidentDetails (b_label btn) source
                       (case note of None \<Rightarrow> False | Some n \<Rightarrow> n \<noteq> [])) s2))"

section \<open>The audit context of scripts/auth.js\<close>

record user =
  uid :: string

record claims =
  roles :: "string list option"
  schoolId :: "string option"

record imitation =
  targetUid :: string
  imitatedRole :: string

text \<open>The module-level variables \<^verbatim>\<open>currentUser\<close>, \<^verbatim>\<open>currentClaims\<close>, \<^verbatim>\<open>imitationState\<close>.\<close>

record session =
  currentUser :: "user option"
  currentClaims :: "claims option"
  imitationState :: "imitation option"

definition firstRole :: "claims option \<Rightarrow> string" where
  \<comment> \<open>\<^verbatim>\<open>claims?.roles?.[0] || 'unknown'\<close>\<close>
  "firstRole cl =
     (case cl of
        None \<Rightarrow> ''unknown''
      | Some c \<Rightarrow>
          (case roles c of
             None \<Rightarrow> ''unknown''
           | Some [] \<Rightarrow> ''unknown''
           | Some (r # rs) \<Rightarrow> if r = [] then ''unknown'' else r))"

definition getAuditContext :: "session \<Rightarrow> js_error + audit_ctx" where
  "getAuditContext ss =
     (case imitationState ss of
        Some im \<Rightarrow>
          (case currentUser ss of
             None \<Rightarrow> Inl TypeError
           | Some u \<Rightarrow> Inr \<lparr>actedBy = uid u, asRole = imitatedRole im, asUserId = targetUid im\<rparr>)
      | None \<Rightarrow>
          (case currentUser ss of
             None \<Rightarrow> Inl TypeError
           | Some u \<Rightarrow>
               Inr \<lparr>actedBy = uid u, asRole = firstRole (currentClaims ss), asUserId = uid u\<rparr>))"

section \<open>The callable setCustomClaims of functions/index.js\<close>

datatype https_error = Unauthenticated | PermissionDenied | InvalidArgument | Internal

text \<open>
  The caller's token (\<^verbatim>\<open>context.auth.token\<close>) may or may not carry a \<^verbatim>\<open>roles\<close> claim.  A
  field of the request data is \<open>None\<close> when it is missing (for \<^verbatim>\<open>roles\<close>: when it is not
  an array); an empty string is as falsy as a missing one.
\<close>

record token =
  tok_roles :: "string list option"

record call_data =
  d_uid :: "string option"
  d_roles :: "string list option"
  d_schoolId :: "string option"

record staff_doc =
  st_roles :: "string list option"
  st_schoolId :: "string option"
  claimsUpdatedAt :: "nat option"

text \<open>
  The server side: the accounts of the authentication service with their custom claims
  (\<^verbatim>\<open>setCustomUserClaims\<close> fails for an account that does not exist) and the staff documents.
\<close>

record backend =
  customClaims :: "string \<rightharpoonup> (string list \<times> string) option"
  staff :: "string list \<rightharpoonup> staff_doc"
  backendTime :: nat

definition staffRef :: "string \<Rightarrow> string \<Rightarrow> string list" where
  "staffRef sid u = [''schools'', sid, ''staff'', u]"

definition setCustomClaims ::
  "call_data \<Rightarrow> token option \<Rightarrow> backend \<Rightarrow> (https_error + unit) \<times> backend" where
  "setCustomClaims data auth b =
     (case auth of
        None \<Rightarrow> (Inl Unauthenticated, b)
      | Some callerClaims \<Rightarrow>
          let isAdmin = (case tok_roles callerClaims of None \<Rightarrow> False
                         | Some rs \<Rightarrow> ''admin'' \<in> set rs);
              firstTimeSetup = (tok_roles callerClaims = None)
          in if \<not> isAdmin \<and> \<not> firstTimeSetup then (Inl PermissionDenied, b)
             else
               (case (d_uid data, d_roles data, d_schoolId data) of
                  (Some u, Some rs, Some sid) \<Rightarrow>
                    if u = [] \<or> sid = [] then (Inl InvalidArgument, b)
                    else
                      (case customClaims b u of
                         None \<Rightarrow> (Inl Internal, b)
                       | Some old \<Rightarrow>
                           (Inr (),
                            b\<lparr>customClaims := (customClaims b)(u \<mapsto> Some (rs, sid)),
                              staff := (staff b)(staffRef sid u \<mapsto>
                                (case staff b (staffRef sid u) of
                                   None \<Rightarrow> \<lparr>st_roles = Some rs, st_schoolId = Some sid,
                                             claimsUpdatedAt = Some (backendTime b)\<rparr>
                                 | Some d \<Rightarrow> d\<lparr>st_roles := Some rs, st_schoolId := Some sid,
                                               claimsUpdatedAt := Some (backendTime b)\<rparr>)),
                              backendTime := Suc (backendTime b)\<rparr>))
                | _ \<Rightarrow> (Inl InvalidArgument, b)))"

section \<open>What the specification says, and the inputs used below\<close>

text \<open>
  The accumulation as the specification words it: every (period, goal) pair of the plan
  whose cell is present and not null contributes \<open>(numeric value, 2)\<close> for a stepper goal
  and \<open>(1 if truthy else 0, 1)\<close> for a checkbox goal.
\<close>

definition cellAt :: "matrix \<Rightarrow> period \<Rightarrow> goal \<Rightarrow> cellval option" where
  "cellAt m p g = (case m (p_id p) of None \<Rightarrow> None | Some pd \<Rightarrow> pd (g_id g))"

definition cell_earned :: "goal \<Rightarrow> cellval option \<Rightarrow> int" where
  "cell_earned g v =
     (case v of
        None \<Rightarrow> 0
      | Some CNull \<Rightarrow> 0
      | Some x \<Rightarrow>
          if kind g = ''stepper'' then Number_of x
          else if kind g = ''checkbox'' then (if truthy x then 1 else 0)
          else 0)"

definition cell_possible :: "goal \<Rightarrow> cellval option \<Rightarrow> int" where
  "cell_possible g v =
     (case v of
        None \<Rightarrow> 0
      | Some CNull \<Rightarrow> 0
      | Some x \<Rightarrow>
          if kind g = ''stepper'' then 2 else if kind g = ''checkbox'' then 1 else 0)"

definition earned :: "goal list \<Rightarrow> matrix \<Rightarrow> period list \<Rightarrow> int" where
  "earned gs m ps = (\<Sum>p\<leftarrow>ps. \<Sum>g\<leftarrow>gs. cell_earned g (cellAt m p g))"

definition possible :: "goal list \<Rightarrow> matrix \<Rightarrow> period list \<Rightarrow> int" where
  "possible gs m ps = (\<Sum>p\<leftarrow>ps. \<Sum>g\<leftarrow>gs. cell_possible g (cellAt m p g))"

definition pct_over :: "goal list \<Rightarrow> matrix \<Rightarrow> period list \<Rightarrow> int" where
  \<comment> \<open>the code's percentage formula on the accumulation over the given periods\<close>
  "pct_over gs m ps = pct_of (earned gs m ps) (possible gs m ps)"

definition tallied :: "goal list \<Rightarrow> matrix \<Rightarrow> period list \<Rightarrow> acc \<Rightarrow> acc" where
  \<comment> \<open>the counters after the periods \<open>ps\<close> have been added to \<open>a\<close>\<close>
  "tallied gs m ps a =
     \<lparr>totalPoints = totalPoints a + earned gs m ps,
      totalPossible = totalPossible a + possible gs m ps,
      amPoints = amPoints a + earned gs m (filter am ps),
      amPossible = amPossible a + possible gs m (filter am ps),
      pmPoints = pmPoints a + earned gs m (filter (\<lambda>p. \<not> am p) ps),
      pmPossible = pmPossible a + possible gs m (filter (\<lambda>p. \<not> am p) ps)\<rparr>"

text \<open>The plan that \<^verbatim>\<open>seedDemo\<close> writes (specials mode \<^verbatim>\<open>AE\<close>).\<close>

definition seed_schedule :: "period list" where
  "seed_schedule =
     [\<lparr>p_id = ''A1'', p_label = ''A'', am = True\<rparr>, \<lparr>p_id = ''A2'', p_label = ''A'', am = False\<rparr>,
      \<lparr>p_id = ''B1'', p_label = ''B'', am = True\<rparr>, \<lparr>p_id = ''B2'', p_label = ''B'', am = False\<rparr>,
      \<lparr>p_id = ''C1'', p_label = ''C'', am = True\<rparr>, \<lparr>p_id = ''C2'', p_label = ''C'', am = False\<rparr>,
      \<lparr>p_id = ''D1'', p_label = ''D'', am = True\<rparr>, \<lparr>p_id = ''D2'', p_label = ''D'', am = False\<rparr>,
      \<lparr>p_id = ''E1'', p_label = ''E'', am = True\<rparr>, \<lparr>p_id = ''E2'', p_label = ''E'', am = False\<rparr>]"

definition seed_goals :: "goal list" where
  "seed_goals =
     [\<lparr>g_id = ''goal_1'', g_label = ''On Task'', kind = ''stepper''\<rparr>,
      \<lparr>g_id = ''goal_2'', g_label = ''Following Directions'', kind = ''stepper''\<rparr>,
      \<lparr>g_id = ''goal_3'', g_label = ''Respectful'', kind = ''checkbox''\<rparr>]"

definition seed_plan :: plan where
  "seed_plan = \<lparr>planType = Some ''PercentageAMPM'', schedule = Some seed_schedule,
     goals = Some seed_goals\<rparr>"

text \<open>
  A day on which both stepper goals are scored in all ten periods and the checkbox goal
  in none: 23 points out of 40.
\<close>

definition steppers :: "int \<Rightarrow> int \<Rightarrow> string \<rightharpoonup> cellval" where
  "steppers x y = [''goal_1'' \<mapsto> CNum x, ''goal_2'' \<mapsto> CNum y]"

definition matrix_23_of_40 :: matrix where
  "matrix_23_of_40 =
     [''A1'' \<mapsto> steppers 2 1, ''A2'' \<mapsto> steppers 2 1, ''B1'' \<mapsto> steppers 2 1,
      ''B2'' \<mapsto> steppers 1 1, ''C1'' \<mapsto> steppers 1 1, ''C2'' \<mapsto> steppers 1 1,
      ''D1'' \<mapsto> steppers 1 1, ''D2'' \<mapsto> steppers 1 1, ''E1'' \<mapsto> steppers 1 1,
      ''E2'' \<mapsto> steppers 1 1]"

text \<open>Stores: an empty one, one holding the seeded plan, one whose plan has no type tag.\<close>

definition store0 :: store where
  "store0 = \<lparr>plans = Map.empty, days = Map.empty, audit_logs = (\<lambda>c. []), serverTime = 0,
     requests = [], dottedSetKeys = False\<rparr>"

definition seed_store :: store where
  "seed_store = store0\<lparr>plans := [planRef ''school_001'' ''demo_plan_1'' \<mapsto> seed_plan]\<rparr>"

definition untyped_store :: store where
  "untyped_store =
     store0\<lparr>plans := [planRef ''school_001'' ''demo_plan_1'' \<mapsto> seed_plan\<lparr>planType := None\<rparr>]\<rparr>"

definition day_store :: store where
  "day_store = store0\<lparr>days := [dayRef ''school_001'' ''demo_plan_1'' ''2024-01-15'' \<mapsto> empty_day]\<rparr>"

definition teacher_ctx :: audit_ctx where
  "teacher_ctx = \<lparr>actedBy = ''teacher_001'', asRole = ''teacher'', asUserId = ''teacher_001''\<rparr>"

definition great_job :: button where
  "great_job = \<lparr>b_id = ''btn_1'', b_label = ''Great Job!'', b_colorHex = ''#4CAF50''\<rparr>"

text \<open>What the writers leave behind, named for the statements below.\<close>

definition cellEntry ::
  "string \<Rightarrow> string \<Rightarrow> string \<Rightarrow> string \<Rightarrow> cellval \<Rightarrow> audit_ctx \<Rightarrow> nat \<Rightarrow> audit_entry" where
  "cellEntry planId dayKey periodId goalId value c t =
     \<lparr>ts = t, ctx = c, action = ''matrix_cell_update'', target = targetOf planId dayKey,
      details = CellDetails periodId goalId value\<rparr>"

definition commentEntry ::
  "string \<Rightarrow> string \<Rightarrow> string \<Rightarrow> nat \<Rightarrow> audit_ctx \<Rightarrow> nat \<Rightarrow> audit_entry" where
  "commentEntry planId dayKey role len c t =
     \<lparr>ts = t, ctx = c, action = ''comment_save'', target = targetOf planId dayKey,
      details = CommentDetails role len\<rparr>"

definition recalcRequests :: "string \<Rightarrow> string \<Rightarrow> string \<Rightarrow> plan option \<Rightarrow> request list" where
  \<comment> \<open>the requests of one run of the aggregator, given the plan document it finds\<close>
  "recalcRequests sid planId dayKey pl =
     (case pl of
        None \<Rightarrow> [GetDoc (planRef sid planId)]
      | Some plan \<Rightarrow>
          [GetDoc (planRef sid planId), GetDoc (dayRef sid planId dayKey)] @
          (case planType plan of
             None \<Rightarrow> []
           | Some ty \<Rightarrow> [UpdateDoc (dayRef sid planId dayKey) [''totals'']]))"

definition dayAfterCell ::
  "bool \<Rightarrow> plan option \<Rightarrow> string \<Rightarrow> string \<Rightarrow> cellval \<Rightarrow> nat \<Rightarrow> day option \<Rightarrow> day" where
  \<comment> \<open>the day document after one cell write, given the plan and the day found\<close>
  "dayAfterCell nested pl p g v now d0 =
     (let d = (case d0 of None \<Rightarrow> empty_day | Some d \<Rightarrow> d);
          d1 = (writeCell nested p g v d)\<lparr>lastModified := Some now\<rparr>
      in case pl of
           None \<Rightarrow> d1
         | Some plan \<Rightarrow>
             (case compute_totals plan (matrixOf d1) of
                Inl e \<Rightarrow> d1
              | Inr t \<Rightarrow> d1\<lparr>totals := Some t\<rparr>))"

definition scored :: "day \<Rightarrow> day" where
  \<comment> \<open>a day's state apart from its modification stamp\<close>
  "scored d = d\<lparr>lastModified := None\<rparr>"

definition incidentsAt :: "store \<Rightarrow> string list \<Rightarrow> incident list" where
  "incidentsAt s ref =
     (case days s ref of
        None \<Rightarrow> []
      | Some d \<Rightarrow> (case incidents d of None \<Rightarrow> [] | Some xs \<Rightarrow> xs))"

text \<open>A server with one account that has no claims yet, and a request to make it an admin.\<close>

definition backend0 :: backend where
  "backend0 = \<lparr>customClaims = [''user_002'' \<mapsto> None], staff = Map.empty, backendTime = 0\<rparr>"

definition make_admin :: call_data where
  "make_admin = \<lparr>d_uid = Some ''user_002'', d_roles = Some [''admin''],
     d_schoolId = Some ''school_001''\<rparr>"

section \<open>The aggregator accumulates what the specification says\<close>

lemma score_cell_add:
  "score_cell p g v a = add_points p (cell_earned g v) (cell_possible g v) a"
  by (cases a)
    (auto simp: score_cell_def cell_earned_def cell_possible_def add_points_def Let_def
      split: option.splits cellval.splits)

lemma add_points_add:
  "add_points p e1 q1 (add_points p e2 q2 a) = add_points p (e2 + e1) (q2 + q1) a"
  by (cases a) (simp add: add_points_def Let_def)

lemma add_points_zero: "add_points p 0 0 a = a"
  by (cases a) (simp add: add_points_def Let_def)

lemma fold_score_cell:
  "fold (\<lambda>g. score_cell p g (f g)) gs (add_points p e q a) =
     add_points p (e + (\<Sum>g\<leftarrow>gs. cell_earned g (f g)))
       (q + (\<Sum>g\<leftarrow>gs. cell_possible g (f g))) a"
  by (induction gs arbitrary: e q) (simp_all add: score_cell_add add_points_add add.assoc)

lemma score_period_add:
  "score_period gs m p a =
     add_points p (\<Sum>g\<leftarrow>gs. cell_earned g (cellAt m p g))
       (\<Sum>g\<leftarrow>gs. cell_possible g (cellAt m p g)) a"
proof -
  have "score_period gs m p (add_points p 0 0 a) =
     add_points p (0 + (\<Sum>g\<leftarrow>gs. cell_earned g (cellAt m p g)))
       (0 + (\<Sum>g\<leftarrow>gs. cell_possible g (cellAt m p g))) a"
    unfolding score_period_def Let_def
    by (cases "m (p_id p)") (simp_all add: fold_score_cell cellAt_def)
  then show ?thesis by (simp add: add_points_zero)
qed

lemma tallied_Cons: "tallied gs m ps (score_period gs m p a) = tallied gs m (p # ps) a"
  by (cases a)
    (simp add: tallied_def score_period_add add_points_def earned_def possible_def Let_def)

lemma fold_score_period: "fold (score_period gs m) ps a = tallied gs m ps a"
proof (induction ps arbitrary: a)
  case Nil
  show ?case by (cases a) (simp add: tallied_def earned_def possible_def)
next
  case (Cons p ps)
  have "fold (score_period gs m) (p # ps) a = fold (score_period gs m) ps (score_period gs m p a)"
    by simp
  also have "\<dots> = tallied gs m ps (score_period gs m p a)"
    by (rule Cons.IH)
  finally show ?case
    by (simp only: tallied_Cons)
qed

lemma tally_eq: "tally plan m = tallied (goalsOf plan) m (scheduleOf plan) acc0"
  unfolding tally_def by (rule fold_score_period)

lemma pct_of_no_cells: "pct_of points 0 = 0"
  by (simp add: pct_of_def)

lemma compute_totals_pct:
  "compute_totals plan m = Inr t \<Longrightarrow> pct t = pct_over (goalsOf plan) m (scheduleOf plan)"
  by (auto simp: compute_totals_def tally_eq tallied_def acc0_def pct_over_def Let_def
      split: option.splits if_splits)

lemma tally_23_of_40:
  "tally seed_plan matrix_23_of_40 =
     \<lparr>totalPoints = 23, totalPossible = 40, amPoints = 12, amPossible = 20,
      pmPoints = 11, pmPossible = 20\<rparr>"
  by (simp add: tally_def seed_plan_def seed_schedule_def seed_goals_def matrix_23_of_40_def
      goalsOf_def scheduleOf_def steppers_def score_period_def score_cell_def add_points_def
      acc0_def Number_of_def Let_def)

lemma pct_of_23_40: "pct_of 23 40 = 57"
  by code_simp

lemma pct_of_12_20: "pct_of 12 20 = 60"
  by code_simp

lemma pct_of_11_20: "pct_of 11 20 = 55"
  by code_simp

lemma pct_of_1_8: "pct_of 1 8 = 13"
  by code_simp

lemma pct_of_1_3: "pct_of 1 3 = 33"
  by code_simp

text \<open>
  Claim C1.  The recomputed \<open>pct\<close> is not always the exact ratio rounded half up.  On the
  seeded plan with 23 of 40 points recorded the exact percentage is 57.5, which rounds half
  up to 58; the code divides first, the quotient \<open>23 / 40\<close> is rounded to a double just
  below 0.575, the product with 100 to a double just below 57.5, and \<^verbatim>\<open>Math.round\<close>
  returns 57.  (The counters themselves are the sums the claim describes, see \<open>tally_eq\<close>,
  and \<open>pct\<close> is 0 when nothing is recorded.)
\<close>

theorem pct_double_rounding_slip:
  "compute_totals seed_plan matrix_23_of_40 = Inr \<lparr>pct = 57, amPct = Some 60, pmPct = Some 55\<rparr>
   \<and> earned seed_goals matrix_23_of_40 seed_schedule = 23
   \<and> possible seed_goals matrix_23_of_40 seed_schedule = 40
   \<and> round_half_up (100 * 23 / 40) = 58"
proof (intro conjI)
  show "compute_totals seed_plan matrix_23_of_40 =
      Inr \<lparr>pct = 57, amPct = Some 60, pmPct = Some 55\<rparr>"
    unfolding compute_totals_def tally_23_of_40 Let_def
    by (simp add: seed_plan_def pct_of_23_40 pct_of_12_20 pct_of_11_20)
  have "tallied (goalsOf seed_plan) matrix_23_of_40 (scheduleOf seed_plan) acc0 =
      \<lparr>totalPoints = 23, totalPossible = 40, amPoints = 12, amPossible = 20,
       pmPoints = 11, pmPossible = 20\<rparr>"
    using tally_23_of_40 by (simp add: tally_eq)
  then have "earned (goalsOf seed_plan) matrix_23_of_40 (scheduleOf seed_plan) = 23 \<and>
      possible (goalsOf seed_plan) matrix_23_of_40 (scheduleOf seed_plan) = 40"
    by (simp add: tallied_def acc0_def)
  then show "earned seed_goals matrix_23_of_40 seed_schedule = 23"
    and "possible seed_goals matrix_23_of_40 seed_schedule = 40"
    by (simp_all add: goalsOf_def scheduleOf_def seed_plan_def)
  show "round_half_up (100 * 23 / 40) = 58"
    by (simp add: round_half_up_def)
qed

section \<open>The AM/PM split\<close>

text \<open>
  Claim C2.  For a plan whose type tag contains \<^verbatim>\<open>AMPM\<close> the totals carry \<open>amPct\<close>, the
  percentage formula on the accumulation over the morning periods alone, and \<open>pmPct\<close>, the
  same over the other periods alone, beside the overall \<open>pct\<close>; neither depends on the
  periods of the other half.  For a plan without the tag the totals have no \<open>amPct\<close> and no
  \<open>pmPct\<close>.
\<close>

theorem ampm_partition:
  assumes "planType plan = Some ty"
  shows "compute_totals plan m =
     Inr (if str_includes ty ''AMPM''
          then \<lparr>pct = pct_over (goalsOf plan) m (scheduleOf plan),
                amPct = Some (pct_over (goalsOf plan) m (filter am (scheduleOf plan))),
                pmPct = Some (pct_over (goalsOf plan) m (filter (\<lambda>p. \<not> am p) (scheduleOf plan)))\<rparr>
          else \<lparr>pct = pct_over (goalsOf plan) m (scheduleOf plan),
                amPct = None, pmPct = None\<rparr>)"
  using assms
  by (simp add: compute_totals_def tally_eq tallied_def acc0_def pct_over_def Let_def)

theorem ampm_partition_witness:
  "planType seed_plan = Some ''PercentageAMPM''
   \<and> compute_totals seed_plan matrix_23_of_40 =
       Inr \<lparr>pct = pct_over seed_goals matrix_23_of_40 seed_schedule,
            amPct = Some (pct_over seed_goals matrix_23_of_40 (filter am seed_schedule)),
            pmPct = Some (pct_over seed_goals matrix_23_of_40 (filter (\<lambda>p. \<not> am p) seed_schedule))\<rparr>
   \<and> compute_totals (seed_plan\<lparr>planType := Some ''Percentage''\<rparr>) matrix_23_of_40 =
       Inr \<lparr>pct = pct_over seed_goals matrix_23_of_40 seed_schedule, amPct = None, pmPct = None\<rparr>"
proof -
  have a: "planType seed_plan = Some ''PercentageAMPM''"
    by (simp add: seed_plan_def)
  have b: "planType (seed_plan\<lparr>planType := Some ''Percentage''\<rparr>) = Some ''Percentage''"
    by simp
  show ?thesis
    using a ampm_partition [OF a, of matrix_23_of_40] ampm_partition [OF b, of matrix_23_of_40]
    by (simp add: goalsOf_def scheduleOf_def seed_plan_def)
qed

section \<open>The writers\<close>

lemma compute_totals_Inl:
  "compute_totals plan m = Inl e \<longleftrightarrow> planType plan = None \<and> e = TypeError"
  by (auto simp: compute_totals_def Let_def split: option.splits)

lemma compute_totals_Inr: "compute_totals plan m = Inr t \<Longrightarrow> \<exists>ty. planType plan = Some ty"
  by (auto simp: compute_totals_def Let_def split: option.splits)

lemma compute_totals_typed: "planType plan = Some ty \<Longrightarrow> \<exists>t. compute_totals plan m = Inr t"
  by (simp add: compute_totals_def Let_def)

lemmas store_defs = setDoc_merge_def getDoc_def updateDoc_def audit_def

lemma recalculateDayTotals_result:
  "fst (recalculateDayTotals sid pl dk s) =
     (case plans s (planRef sid pl) of
        None \<Rightarrow> Inr ()
      | Some plan \<Rightarrow>
          (case days s (dayRef sid pl dk) of
             None \<Rightarrow> Inr ()
           | Some d \<Rightarrow> (case planType plan of None \<Rightarrow> Inl TypeError | Some ty \<Rightarrow> Inr ())))"
  by (auto simp: recalculateDayTotals_def store_defs compute_totals_Inl Let_def
      split: option.splits sum.splits prod.splits
      dest: compute_totals_typed compute_totals_Inr)

lemma saveMatrixCell_result:
  "fst (saveMatrixCell sid pl dk p g v c s) =
     (case plans s (planRef sid pl) of
        None \<Rightarrow> Inr ()
      | Some plan \<Rightarrow> (case planType plan of None \<Rightarrow> Inl TypeError | Some ty \<Rightarrow> Inr ()))"
  by (auto simp: saveMatrixCell_def recalculateDayTotals_def store_defs compute_totals_Inl Let_def
      split: option.splits sum.splits prod.splits
      dest: compute_totals_typed compute_totals_Inr)

lemma saveMatrixCell_requests:
  "requests (snd (saveMatrixCell sid pl dk p g v c s)) =
     requests s
     @ [SetDocMerge (dayRef sid pl dk) [cellKey p g, ''lastModified'']]
     @ recalcRequests sid pl dk (plans s (planRef sid pl))
     @ (case fst (saveMatrixCell sid pl dk p g v c s) of
          Inl e \<Rightarrow> []
        | Inr u \<Rightarrow>
            [AddDoc (auditRef sid)
               (cellEntry pl dk p g v c (serverTime (snd (saveMatrixCell sid pl dk p g v c s)) - 1))])"
  by (auto simp: saveMatrixCell_def recalculateDayTotals_def store_defs recalcRequests_def
      cellEntry_def compute_totals_Inl Let_def
      split: option.splits sum.splits prod.splits
      dest: compute_totals_typed compute_totals_Inr)

lemma saveMatrixCell_audit_logs:
  "audit_logs (snd (saveMatrixCell sid pl dk p g v c s)) (auditRef sid) =
     audit_logs s (auditRef sid)
     @ (case fst (saveMatrixCell sid pl dk p g v c s) of
          Inl e \<Rightarrow> []
        | Inr u \<Rightarrow>
            [cellEntry pl dk p g v c (serverTime (snd (saveMatrixCell sid pl dk p g v c s)) - 1)])"
  by (auto simp: saveMatrixCell_def recalculateDayTotals_def store_defs cellEntry_def Let_def
      split: option.splits sum.splits prod.splits)

lemma saveMatrixCell_days:
  "days (snd (saveMatrixCell sid pl dk p g v c s)) =
     (days s)(dayRef sid pl dk \<mapsto>
        dayAfterCell (dottedSetKeys s) (plans s (planRef sid pl)) p g v (serverTime s)
          (days s (dayRef sid pl dk)))"
  by (simp add: saveMatrixCell_def recalculateDayTotals_def store_defs dayAfterCell_def Let_def
      split: option.splits sum.splits prod.splits)

lemma saveMatrixCell_client:
  "dottedSetKeys (snd (saveMatrixCell sid pl dk p g v c s)) = dottedSetKeys s"
  by (simp add: saveMatrixCell_def recalculateDayTotals_def store_defs Let_def
      split: option.splits sum.splits prod.splits)

lemma saveMatrixCell_plans: "plans (snd (saveMatrixCell sid pl dk p g v c s)) = plans s"
  by (simp add: saveMatrixCell_def recalculateDayTotals_def store_defs Let_def
      split: option.splits sum.splits prod.splits)

text \<open>
  When the key of the cell write is kept as a single field name, the write lands beside the
  nested \<open>matrix\<close> map that the aggregator reads, not inside it.
\<close>

lemma saveMatrixCell_matrix:
  "\<not> dottedSetKeys s \<Longrightarrow>
   map_option matrix (days (snd (saveMatrixCell sid pl dk p g v c s)) (dayRef sid pl dk)) =
     Some (case days s (dayRef sid pl dk) of None \<Rightarrow> None | Some d \<Rightarrow> matrix d)"
  by (simp add: saveMatrixCell_days dayAfterCell_def writeCell_def empty_day_def matrixOf_def
      Let_def split: option.splits sum.splits)

lemma writeCell_stored: "cellStored nested p g (writeCell nested p g v d) = Some v"
  by (simp add: cellStored_def writeCell_def matrixOf_def)

lemma cellStored_stamp: "cellStored nested p g (d\<lparr>lastModified := t\<rparr>) = cellStored nested p g d"
  by (simp add: cellStored_def matrixOf_def)

lemma writeCell_twice:
  "writeCell nested p g v ((writeCell nested p g v d)\<lparr>lastModified := t\<rparr>) =
     (writeCell nested p g v d)\<lparr>lastModified := t\<rparr>"
  by (simp add: writeCell_def matrixOf_def)

lemma writeCell_twice_totals:
  "writeCell nested p g v ((writeCell nested p g v d)\<lparr>lastModified := t, totals := x\<rparr>) =
     (writeCell nested p g v d)\<lparr>lastModified := t, totals := x\<rparr>"
  by (simp add: writeCell_def matrixOf_def)

lemma matrixOf_stamp: "matrixOf (d\<lparr>lastModified := t\<rparr>) = matrixOf d"
  by (simp add: matrixOf_def)

lemma matrixOf_totals: "matrixOf (d\<lparr>totals := x\<rparr>) = matrixOf d"
  by (simp add: matrixOf_def)

lemma dayAfterCell_replay:
  "scored (dayAfterCell nested P p g v t' (Some (dayAfterCell nested P p g v t d0))) =
   scored (dayAfterCell nested P p g v t d0)"
  by (simp add: dayAfterCell_def scored_def writeCell_twice writeCell_twice_totals
      matrixOf_stamp matrixOf_totals Let_def split: option.splits sum.splits)

lemma seed_store_plan:
  "plans seed_store (planRef ''school_001'' ''demo_plan_1'') = Some seed_plan"
  by (simp add: seed_store_def store0_def)

lemma untyped_store_plan:
  "plans untyped_store (planRef ''school_001'' ''demo_plan_1'') = Some (seed_plan\<lparr>planType := None\<rparr>)"
  by (simp add: untyped_store_def store0_def)

lemma saveMatrixCell_time:
  "serverTime (snd (saveMatrixCell sid pl dk p g v c s)) =
     serverTime s +
       (case plans s (planRef sid pl) of
          None \<Rightarrow> 2
        | Some plan \<Rightarrow> (case planType plan of None \<Rightarrow> 1 | Some ty \<Rightarrow> 3))"
  by (auto simp: saveMatrixCell_def recalculateDayTotals_def store_defs compute_totals_Inl Let_def
      split: option.splits sum.splits prod.splits
      dest: compute_totals_typed compute_totals_Inr)

lemma cellStored_totals: "cellStored nested p g (d\<lparr>totals := x\<rparr>) = cellStored nested p g d"
  by (simp add: cellStored_def matrixOf_def)

lemma dayAfterCell_stored: "cellStored nested p g (dayAfterCell nested P p g v t d0) = Some v"
  by (simp add: dayAfterCell_def cellStored_totals cellStored_stamp writeCell_stored Let_def
      split: option.splits sum.splits)

lemma dayAfterCell_stamp: "lastModified (dayAfterCell nested P p g v t d0) = Some t"
  by (simp add: dayAfterCell_def Let_def split: option.splits sum.splits)

lemma dayAfterCell_typed:
  "planType plan = Some ty \<Longrightarrow>
   \<exists>t'. compute_totals plan (matrixOf (dayAfterCell nested (Some plan) p g v t d0)) = Inr t' \<and>
        totals (dayAfterCell nested (Some plan) p g v t d0) = Some t'"
  by (simp add: dayAfterCell_def compute_totals_def matrixOf_totals Let_def)

lemma dayAfterCell_no_plan:
  "totals (dayAfterCell nested None p g v t d0) =
     (case d0 of None \<Rightarrow> None | Some d \<Rightarrow> totals d)"
  by (simp add: dayAfterCell_def writeCell_def empty_day_def Let_def split: option.splits)

text \<open>
  Claim C3, as the code has it.  When the plan document exists and has a \<^verbatim>\<open>planType\<close>
  string, one run of \<^verbatim>\<open>saveMatrixCell\<close> resolves after three writes in this order: the
  cell is stored on the day (stamped with the server time of the call), the totals are set
  to what the aggregator computes from the day as stored, and the audit entry tagged
  \<^verbatim>\<open>matrix_cell_update\<close> with the period, the goal and the value is appended, two ticks
  of the server clock after the cell write.  When the plan document does not exist, the
  aggregator returns after reading for it: the cell is stored, the totals stay as they
  were, the audit entry is appended and the run resolves.
\<close>

theorem saveMatrixCell_effect_order:
  "(plans s (planRef sid pl) = Some plan \<and> planType plan = Some ty \<longrightarrow>
      fst (saveMatrixCell sid pl dk p g v c s) = Inr () \<and>
      requests (snd (saveMatrixCell sid pl dk p g v c s)) =
        requests s @
        [SetDocMerge (dayRef sid pl dk) [cellKey p g, ''lastModified''],
         GetDoc (planRef sid pl),
         GetDoc (dayRef sid pl dk),
         UpdateDoc (dayRef sid pl dk) [''totals''],
         AddDoc (auditRef sid) (cellEntry pl dk p g v c (serverTime s + 2))] \<and>
      (\<exists>d t. days (snd (saveMatrixCell sid pl dk p g v c s)) (dayRef sid pl dk) = Some d \<and>
           cellStored (dottedSetKeys s) p g d = Some v \<and>
           lastModified d = Some (serverTime s) \<and>
           compute_totals plan (matrixOf d) = Inr t \<and>
           totals d = Some t) \<and>
      audit_logs (snd (saveMatrixCell sid pl dk p g v c s)) (auditRef sid) =
        audit_logs s (auditRef sid) @ [cellEntry pl dk p g v c (serverTime s + 2)]) \<and>
   (plans s (planRef sid pl) = None \<longrightarrow>
      fst (saveMatrixCell sid pl dk p g v c s) = Inr () \<and>
      requests (snd (saveMatrixCell sid pl dk p g v c s)) =
        requests s @
        [SetDocMerge (dayRef sid pl dk) [cellKey p g, ''lastModified''],
         GetDoc (planRef sid pl),
         AddDoc (auditRef sid) (cellEntry pl dk p g v c (serverTime s + 1))] \<and>
      (\<exists>d. days (snd (saveMatrixCell sid pl dk p g v c s)) (dayRef sid pl dk) = Some d \<and>
           cellStored (dottedSetKeys s) p g d = Some v \<and>
           lastModified d = Some (serverTime s) \<and>
           totals d = (case days s (dayRef sid pl dk) of None \<Rightarrow> None | Some d0 \<Rightarrow> totals d0)) \<and>
      audit_logs (snd (saveMatrixCell sid pl dk p g v c s)) (auditRef sid) =
        audit_logs s (auditRef sid) @ [cellEntry pl dk p g v c (serverTime s + 1)])"
proof (intro conjI impI)
  let ?run = "saveMatrixCell sid pl dk p g v c s"
  {
    assume typed: "plans s (planRef sid pl) = Some plan \<and> planType plan = Some ty"
    show "fst ?run = Inr ()"
      using typed by (simp add: saveMatrixCell_result)
    have time: "serverTime (snd ?run) - 1 = serverTime s + 2"
      using typed by (simp add: saveMatrixCell_time)
    show "requests (snd ?run) =
        requests s @
        [SetDocMerge (dayRef sid pl dk) [cellKey p g, ''lastModified''],
         GetDoc (planRef sid pl),
         GetDoc (dayRef sid pl dk),
         UpdateDoc (dayRef sid pl dk) [''totals''],
         AddDoc (auditRef sid) (cellEntry pl dk p g v c (serverTime s + 2))]"
      using typed time
      by (simp add: saveMatrixCell_requests saveMatrixCell_result recalcRequests_def)
    show "audit_logs (snd ?run) (auditRef sid) =
        audit_logs s (auditRef sid) @ [cellEntry pl dk p g v c (serverTime s + 2)]"
      using typed time by (simp add: saveMatrixCell_audit_logs saveMatrixCell_result)
    show "\<exists>d t. days (snd ?run) (dayRef sid pl dk) = Some d \<and>
           cellStored (dottedSetKeys s) p g d = Some v \<and>
           lastModified d = Some (serverTime s) \<and>
           compute_totals plan (matrixOf d) = Inr t \<and>
           totals d = Some t"
      using typed dayAfterCell_typed [of plan ty "dottedSetKeys s" p g v "serverTime s"
          "days s (dayRef sid pl dk)"]
      by (auto simp: saveMatrixCell_days dayAfterCell_stored dayAfterCell_stamp)
  }
  {
    assume absent: "plans s (planRef sid pl) = None"
    show "fst ?run = Inr ()"
      using absent by (simp add: saveMatrixCell_result)
    have time: "serverTime (snd ?run) - 1 = serverTime s + 1"
      using absent by (simp add: saveMatrixCell_time)
    show "requests (snd ?run) =
        requests s @
        [SetDocMerge (dayRef sid pl dk) [cellKey p g, ''lastModified''],
         GetDoc (planRef sid pl),
         AddDoc (auditRef sid) (cellEntry pl dk p g v c (serverTime s + 1))]"
      using absent time
      by (simp add: saveMatrixCell_requests saveMatrixCell_result recalcRequests_def)
    show "audit_logs (snd ?run) (auditRef sid) =
        audit_logs s (auditRef sid) @ [cellEntry pl dk p g v c (serverTime s + 1)]"
      using absent time by (simp add: saveMatrixCell_audit_logs saveMatrixCell_result)
    show "\<exists>d. days (snd ?run) (dayRef sid pl dk) = Some d \<and>
           cellStored (dottedSetKeys s) p g d = Some v \<and>
           lastModified d = Some (serverTime s) \<and>
           totals d = (case days s (dayRef sid pl dk) of None \<Rightarrow> None | Some d0 \<Rightarrow> totals d0)"
      using absent
      by (simp add: saveMatrixCell_days dayAfterCell_stored dayAfterCell_stamp
          dayAfterCell_no_plan)
  }
qed

theorem saveMatrixCell_effect_order_witness:
  "plans seed_store (planRef ''school_001'' ''demo_plan_1'') = Some seed_plan
   \<and> planType seed_plan = Some ''PercentageAMPM''
   \<and> fst (saveMatrixCell ''school_001'' ''demo_plan_1'' ''2024-01-15'' ''A1'' ''goal_1''
        (CNum 2) teacher_ctx seed_store) = Inr ()
   \<and> requests (snd (saveMatrixCell ''school_001'' ''demo_plan_1'' ''2024-01-15'' ''A1'' ''goal_1''
        (CNum 2) teacher_ctx seed_store)) =
       [SetDocMerge (dayRef ''school_001'' ''demo_plan_1'' ''2024-01-15'')
          [''matrix.A1.goal_1'', ''lastModified''],
        GetDoc (planRef ''school_001'' ''demo_plan_1''),
        GetDoc (dayRef ''school_001'' ''demo_plan_1'' ''2024-01-15''),
        UpdateDoc (dayRef ''school_001'' ''demo_plan_1'' ''2024-01-15'') [''totals''],
        AddDoc (auditRef ''school_001'')
          (cellEntry ''demo_plan_1'' ''2024-01-15'' ''A1'' ''goal_1'' (CNum 2) teacher_ctx
             (Suc (Suc 0)))]
   \<and> (\<exists>d t. days (snd (saveMatrixCell ''school_001'' ''demo_plan_1'' ''2024-01-15'' ''A1''
                 ''goal_1'' (CNum 2) teacher_ctx seed_store))
               (dayRef ''school_001'' ''demo_plan_1'' ''2024-01-15'') = Some d \<and>
             cellStored False ''A1'' ''goal_1'' d = Some (CNum 2) \<and>
             lastModified d = Some 0 \<and>
             compute_totals seed_plan (matrixOf d) = Inr t \<and>
             totals d = Some t)
   \<and> plans store0 (planRef ''school_001'' ''demo_plan_1'') = None
   \<and> fst (saveMatrixCell ''school_001'' ''demo_plan_1'' ''2024-01-15'' ''A1'' ''goal_1''
        (CNum 2) teacher_ctx store0) = Inr ()
   \<and> audit_logs (snd (saveMatrixCell ''school_001'' ''demo_plan_1'' ''2024-01-15'' ''A1''
        ''goal_1'' (CNum 2) teacher_ctx store0)) (auditRef ''school_001'') =
       [cellEntry ''demo_plan_1'' ''2024-01-15'' ''A1'' ''goal_1'' (CNum 2) teacher_ctx (Suc 0)]"
proof -
  note typed = saveMatrixCell_effect_order [where sid = "''school_001''"
      and pl = "''demo_plan_1''" and dk = "''2024-01-15''" and p = "''A1''" and g = "''goal_1''"
      and v = "CNum 2" and c = teacher_ctx and s = seed_store and plan = seed_plan
      and ty = "''PercentageAMPM''"]
  note absent = saveMatrixCell_effect_order [where sid = "''school_001''"
      and pl = "''demo_plan_1''" and dk = "''2024-01-15''" and p = "''A1''" and g = "''goal_1''"
      and v = "CNum 2" and c = teacher_ctx and s = store0 and plan = seed_plan
      and ty = "''PercentageAMPM''"]
  have h1: "plans seed_store (planRef ''school_001'' ''demo_plan_1'') = Some seed_plan \<and>
      planType seed_plan = Some ''PercentageAMPM''"
    by (simp add: seed_store_plan seed_plan_def)
  have h2: "plans store0 (planRef ''school_001'' ''demo_plan_1'') = None"
    by (simp add: store0_def)
  have e1: "requests seed_store = [] \<and> serverTime seed_store = 0 \<and> \<not> dottedSetKeys seed_store"
    by (simp add: seed_store_def store0_def)
  have e2: "audit_logs store0 (auditRef ''school_001'') = [] \<and> serverTime store0 = 0"
    by (simp add: store0_def)
  show ?thesis
    using h1 h2 mp [OF conjunct1 [OF typed] h1] mp [OF conjunct2 [OF absent] h2]
    by (simp add: e1 e2 cellKey_def)
qed

text \<open>
  Claim C3 as stated fails: on a store without the plan document the run resolves and
  appends its audit entry, yet the aggregator has written no totals; the only requests are
  the cell write, the read for the plan and the audit entry.
\<close>

theorem saveMatrixCell_without_plan:
  "fst (saveMatrixCell ''school_001'' ''demo_plan_1'' ''2024-01-15'' ''A1'' ''goal_1''
        (CNum 2) teacher_ctx store0) = Inr ()
   \<and> map_option totals (days (snd (saveMatrixCell ''school_001'' ''demo_plan_1'' ''2024-01-15''
        ''A1'' ''goal_1'' (CNum 2) teacher_ctx store0))
        (dayRef ''school_001'' ''demo_plan_1'' ''2024-01-15'')) = Some None
   \<and> requests (snd (saveMatrixCell ''school_001'' ''demo_plan_1'' ''2024-01-15'' ''A1'' ''goal_1''
        (CNum 2) teacher_ctx store0)) =
       [SetDocMerge (dayRef ''school_001'' ''demo_plan_1'' ''2024-01-15'')
          [''matrix.A1.goal_1'', ''lastModified''],
        GetDoc (planRef ''school_001'' ''demo_plan_1''),
        AddDoc (auditRef ''school_001'')
          (cellEntry ''demo_plan_1'' ''2024-01-15'' ''A1'' ''goal_1'' (CNum 2) teacher_ctx 1)]"
  by (simp add: saveMatrixCell_def recalculateDayTotals_def store_defs store0_def cellEntry_def
      writeCell_def empty_day_def cellKey_def Let_def)

text \<open>
  Claim C10.  When the plan document has a \<^verbatim>\<open>planType\<close> string, neither the aggregator nor
  the cell write fails.  When the plan document exists without a \<^verbatim>\<open>planType\<close>, the cell
  write fails with a type error after the cell has been stored on the day: the day's totals
  are those it had before and no audit entry is appended.
\<close>

theorem planType_precondition:
  assumes found: "plans s (planRef sid pl) = Some plan"
  shows
    "(case planType plan of
        Some ty \<Rightarrow>
          fst (recalculateDayTotals sid pl dk s) = Inr () \<and>
          fst (saveMatrixCell sid pl dk p g v c s) = Inr ()
      | None \<Rightarrow>
          (case saveMatrixCell sid pl dk p g v c s of
             (r, s') \<Rightarrow>
               r = Inl TypeError \<and>
               (\<exists>d. days s' (dayRef sid pl dk) = Some d \<and>
                    cellStored (dottedSetKeys s) p g d = Some v \<and>
                    totals d =
                      (case days s (dayRef sid pl dk) of None \<Rightarrow> None | Some d0 \<Rightarrow> totals d0)) \<and>
               audit_logs s' = audit_logs s))"
proof (cases "planType plan")
  case (Some ty)
  then show ?thesis
    using found
    by (simp add: recalculateDayTotals_result saveMatrixCell_result split: option.splits)
next
  case None
  let ?run = "saveMatrixCell sid pl dk p g v c s"
  let ?d0 = "case days s (dayRef sid pl dk) of None \<Rightarrow> empty_day | Some d \<Rightarrow> d"
  have r: "fst ?run = Inl TypeError"
    using found None by (simp add: saveMatrixCell_result)
  have d: "days (snd ?run) (dayRef sid pl dk) =
      Some ((writeCell (dottedSetKeys s) p g v ?d0)\<lparr>lastModified := Some (serverTime s)\<rparr>)"
    using found None
    by (simp add: saveMatrixCell_days dayAfterCell_def compute_totals_def Let_def)
  have t: "totals ((writeCell (dottedSetKeys s) p g v ?d0)\<lparr>lastModified := Some (serverTime s)\<rparr>) =
      (case days s (dayRef sid pl dk) of None \<Rightarrow> None | Some d0 \<Rightarrow> totals d0)"
    by (simp add: writeCell_def empty_day_def split: option.splits)
  have a: "audit_logs (snd ?run) = audit_logs s"
    using found None
    by (simp add: saveMatrixCell_def recalculateDayTotals_def store_defs compute_totals_def Let_def)
  show ?thesis
    using None r d t a
    by (cases ?run) (simp add: cellStored_stamp writeCell_stored)
qed

theorem planType_precondition_witness:
  "plans seed_store (planRef ''school_001'' ''demo_plan_1'') = Some seed_plan
   \<and> fst (saveMatrixCell ''school_001'' ''demo_plan_1'' ''2024-01-15'' ''A1'' ''goal_1''
        (CNum 2) teacher_ctx seed_store) = Inr ()
   \<and> plans untyped_store (planRef ''school_001'' ''demo_plan_1'') = Some (seed_plan\<lparr>planType := None\<rparr>)
   \<and> fst (saveMatrixCell ''school_001'' ''demo_plan_1'' ''2024-01-15'' ''A1'' ''goal_1''
        (CNum 2) teacher_ctx untyped_store) = Inl TypeError
   \<and> audit_logs (snd (saveMatrixCell ''school_001'' ''demo_plan_1'' ''2024-01-15'' ''A1'' ''goal_1''
        (CNum 2) teacher_ctx untyped_store)) = audit_logs untyped_store"
  using planType_precondition [OF seed_store_plan, where dk = "''2024-01-15''" and p = "''A1''"
      and g = "''goal_1''" and v = "CNum 2" and c = teacher_ctx]
    planType_precondition [OF untyped_store_plan, where dk = "''2024-01-15''" and p = "''A1''"
      and g = "''goal_1''" and v = "CNum 2" and c = teacher_ctx]
  by (simp add: seed_store_plan untyped_store_plan seed_plan_def split: prod.splits)

text \<open>
  Claim C5.  Running \<^verbatim>\<open>saveMatrixCell\<close> or \<^verbatim>\<open>saveComment\<close> a second time with the same
  arguments leaves every day document as the first run left it, but for the modification
  stamp.  Running \<^verbatim>\<open>logCustomIncident\<close> a second time with the same arguments appends a
  second incident with the same label, colour, note and source.
\<close>

theorem replay_idempotence:
  "(let s1 = snd (saveMatrixCell sid pl dk p g v c s);
        s2 = snd (saveMatrixCell sid pl dk p g v c s1)
    in map_option scored \<circ> days s2 = map_option scored \<circ> days s1) \<and>
   (let s1 = snd (saveComment sid pl dk role txt c s);
        s2 = snd (saveComment sid pl dk role txt c s1)
    in map_option scored \<circ> days s2 = map_option scored \<circ> days s1) \<and>
   (let s1 = snd (logCustomIncident sid pl dk btn nt src c n1 r1 m1 s);
        s2 = snd (logCustomIncident sid pl dk btn nt src c n2 r2 m2 s1)
    in \<exists>i1 i2.
         incidentsAt s1 (dayRef sid pl dk) = incidentsAt s (dayRef sid pl dk) @ [i1] \<and>
         incidentsAt s2 (dayRef sid pl dk) = incidentsAt s (dayRef sid pl dk) @ [i1, i2] \<and>
         inc_label i2 = inc_label i1 \<and> inc_colorHex i2 = inc_colorHex i1 \<and>
         inc_note i2 = inc_note i1 \<and> inc_source i2 = inc_source i1)"
proof (intro conjI)
  show "let s1 = snd (saveMatrixCell sid pl dk p g v c s);
            s2 = snd (saveMatrixCell sid pl dk p g v c s1)
        in map_option scored \<circ> days s2 = map_option scored \<circ> days s1"
    by (simp add: Let_def saveMatrixCell_days saveMatrixCell_plans saveMatrixCell_client
        fun_eq_iff dayAfterCell_replay)
  show "let s1 = snd (saveComment sid pl dk role txt c s);
            s2 = snd (saveComment sid pl dk role txt c s1)
        in map_option scored \<circ> days s2 = map_option scored \<circ> days s1"
    by (simp add: fun_eq_iff scored_def saveComment_def store_defs Let_def
        split: option.splits sum.splits prod.splits)
  show "let s1 = snd (logCustomIncident sid pl dk btn nt src c n1 r1 m1 s);
            s2 = snd (logCustomIncident sid pl dk btn nt src c n2 r2 m2 s1)
        in \<exists>i1 i2.
             incidentsAt s1 (dayRef sid pl dk) = incidentsAt s (dayRef sid pl dk) @ [i1] \<and>
             incidentsAt s2 (dayRef sid pl dk) = incidentsAt s (dayRef sid pl dk) @ [i1, i2] \<and>
             inc_label i2 = inc_label i1 \<and> inc_colorHex i2 = inc_colorHex i1 \<and>
             inc_note i2 = inc_note i1 \<and> inc_source i2 = inc_source i1"
    by (simp add: incidentsAt_def logCustomIncident_def store_defs Let_def split: option.splits)
qed

text \<open>
  Claim C4.  \<^verbatim>\<open>saveComment\<close> does not create the day: on a store without the day it fails
  with not-found, the day stays absent and nothing is audited.  \<^verbatim>\<open>saveMatrixCell\<close> and
  \<^verbatim>\<open>logCustomIncident\<close> on the same store do create it.
\<close>

theorem saveComment_missing_day_fails:
  "saveComment ''school_001'' ''demo_plan_1'' ''2024-01-15'' ''teacher'' ''Great progress today!''
       teacher_ctx store0 =
     (Inl NotFound,
      store0\<lparr>requests := [UpdateDoc (dayRef ''school_001'' ''demo_plan_1'' ''2024-01-15'')
                             [''comments.teacher'', ''lastModified'']]\<rparr>)
   \<and> days (snd (saveMatrixCell ''school_001'' ''demo_plan_1'' ''2024-01-15'' ''A1'' ''goal_1''
         (CNum 2) teacher_ctx store0)) (dayRef ''school_001'' ''demo_plan_1'' ''2024-01-15'') \<noteq> None
   \<and> fst (logCustomIncident ''school_001'' ''demo_plan_1'' ''2024-01-15'' great_job None
         ''teacher'' teacher_ctx 1700000000000 ''0.i'' 1700000000000 store0) = Inr ()
   \<and> days (snd (logCustomIncident ''school_001'' ''demo_plan_1'' ''2024-01-15'' great_job None
         ''teacher'' teacher_ctx 1700000000000 ''0.i'' 1700000000000 store0))
       (dayRef ''school_001'' ''demo_plan_1'' ''2024-01-15'') \<noteq> None"
proof (intro conjI)
  show "saveComment ''school_001'' ''demo_plan_1'' ''2024-01-15'' ''teacher''
       ''Great progress today!'' teacher_ctx store0 =
     (Inl NotFound,
      store0\<lparr>requests := [UpdateDoc (dayRef ''school_001'' ''demo_plan_1'' ''2024-01-15'')
                             [''comments.teacher'', ''lastModified'']]\<rparr>)"
    by (simp add: saveComment_def updateDoc_def store0_def)
  show "days (snd (saveMatrixCell ''school_001'' ''demo_plan_1'' ''2024-01-15'' ''A1'' ''goal_1''
         (CNum 2) teacher_ctx store0)) (dayRef ''school_001'' ''demo_plan_1'' ''2024-01-15'') \<noteq> None"
    by (simp add: saveMatrixCell_days)
  show "fst (logCustomIncident ''school_001'' ''demo_plan_1'' ''2024-01-15'' great_job None
         ''teacher'' teacher_ctx 1700000000000 ''0.i'' 1700000000000 store0) = Inr ()"
    by (simp add: logCustomIncident_def Let_def)
  show "days (snd (logCustomIncident ''school_001'' ''demo_plan_1'' ''2024-01-15'' great_job None
         ''teacher'' teacher_ctx 1700000000000 ''0.i'' 1700000000000 store0))
       (dayRef ''school_001'' ''demo_plan_1'' ''2024-01-15'') \<noteq> None"
    by (simp add: logCustomIncident_def store_defs Let_def)
qed

lemma saveComment_without_day:
  "days s (dayRef sid pl dk) = None \<Longrightarrow>
   fst (saveComment sid pl dk role txt c s) = Inl NotFound \<and>
   days (snd (saveComment sid pl dk role txt c s)) = days s \<and>
   audit_logs (snd (saveComment sid pl dk role txt c s)) = audit_logs s"
  by (simp add: saveComment_def updateDoc_def)

text \<open>
  Claim C7.  The audit entry of \<^verbatim>\<open>saveComment\<close> carries the role and the length of the
  text, not the text: two runs that differ only in texts of equal length leave the same
  audit logs.
\<close>

theorem comment_audit_length_only:
  "(length t1 = length t2 \<longrightarrow>
      audit_logs (snd (saveComment sid pl dk role t1 c s)) =
      audit_logs (snd (saveComment sid pl dk role t2 c s))) \<and>
   audit_logs (snd (saveComment sid pl dk role t1 c s)) (auditRef sid) =
     audit_logs s (auditRef sid) @
       (case fst (saveComment sid pl dk role t1 c s) of
          Inl e \<Rightarrow> []
        | Inr u \<Rightarrow> [commentEntry pl dk role (length t1) c (Suc (serverTime s))])"
  by (simp add: saveComment_def store_defs commentEntry_def Let_def split: option.splits)

theorem comment_audit_length_only_witness:
  "length ''Great progress today!'' = length ''Needs a reminder, ok?''
   \<and> audit_logs (snd (saveComment ''school_001'' ''demo_plan_1'' ''2024-01-15'' ''teacher''
        ''Great progress today!'' teacher_ctx day_store)) =
      audit_logs (snd (saveComment ''school_001'' ''demo_plan_1'' ''2024-01-15'' ''teacher''
        ''Needs a reminder, ok?'' teacher_ctx day_store))
   \<and> audit_logs (snd (saveComment ''school_001'' ''demo_plan_1'' ''2024-01-15'' ''teacher''
        ''Great progress today!'' teacher_ctx day_store)) (auditRef ''school_001'') =
      [commentEntry ''demo_plan_1'' ''2024-01-15'' ''teacher'' (length ''Great progress today!'')
         teacher_ctx (Suc 0)]"
proof -
  note th = comment_audit_length_only [where ?t1.0 = "''Great progress today!''"
        and ?t2.0 = "''Needs a reminder, ok?''" and sid = "''school_001''"
        and pl = "''demo_plan_1''" and dk = "''2024-01-15''" and role = "''teacher''"
        and c = teacher_ctx and s = day_store]
  have len: "length ''Great progress today!'' = length ''Needs a reminder, ok?''"
    by simp
  have r: "fst (saveComment ''school_001'' ''demo_plan_1'' ''2024-01-15'' ''teacher''
        ''Great progress today!'' teacher_ctx day_store) = Inr ()"
    by (simp add: saveComment_def updateDoc_def day_store_def store0_def)
  have e: "audit_logs day_store (auditRef ''school_001'') = [] \<and> serverTime day_store = 0"
    by (simp add: day_store_def store0_def)
  show ?thesis
  proof (intro conjI)
    show "length ''Great progress today!'' = length ''Needs a reminder, ok?''"
      by (rule len)
    show "audit_logs (snd (saveComment ''school_001'' ''demo_plan_1'' ''2024-01-15'' ''teacher''
        ''Great progress today!'' teacher_ctx day_store)) =
      audit_logs (snd (saveComment ''school_001'' ''demo_plan_1'' ''2024-01-15'' ''teacher''
        ''Needs a reminder, ok?'' teacher_ctx day_store))"
      using conjunct1 [OF th] len by (rule mp)
    show "audit_logs (snd (saveComment ''school_001'' ''demo_plan_1'' ''2024-01-15'' ''teacher''
        ''Great progress today!'' teacher_ctx day_store)) (auditRef ''school_001'') =
      [commentEntry ''demo_plan_1'' ''2024-01-15'' ''teacher'' (length ''Great progress today!'')
         teacher_ctx (Suc 0)]"
      using conjunct2 [OF th] by (simp only: r e sum.case append_Nil)
  qed
qed

section \<open>Incident ids\<close>

lemma dec_example: "dec 1700000000000 = ''1700000000000''"
  by simp

lemma logCustomIncident_incidents:
  "incidentsAt (snd (logCustomIncident sid pl dk btn nt src c n1 r1 m1 s)) (dayRef sid pl dk) =
     incidentsAt s (dayRef sid pl dk) @
       [\<lparr>inc_id = incidentId n1 r1, inc_label = b_label btn, inc_colorHex = b_colorHex btn,
         inc_note = (case nt of None \<Rightarrow> None | Some n \<Rightarrow> if n = [] then None else Some n),
         inc_ts = m1, inc_source = src\<rparr>]"
  by (simp add: incidentsAt_def logCustomIncident_def store_defs Let_def split: option.splits)

text \<open>
  Claim C9, as the code has it.  The id of the incident that \<^verbatim>\<open>logCustomIncident\<close> appends
  is \<^verbatim>\<open>inc_\<close>, the clock reading in decimal, an underscore and a random suffix.  The suffix
  is what the base-36 rendering of the random number holds from its third character on, cut
  after nine characters: for a rendering \<^verbatim>\<open>0.\<close> followed by digits, the first nine of those
  digits, or all of them when there are fewer.  So the suffix has at most nine characters,
  base-36 digits when the rendering's are, and nothing bounds its length from below.
\<close>

theorem incident_id_shape:
  "map inc_id (incidentsAt (snd (logCustomIncident sid pl dk btn nt src c now rnd36 now' s))
       (dayRef sid pl dk)) =
     map inc_id (incidentsAt s (dayRef sid pl dk)) @
       [''inc_'' @ dec now @ ''_'' @ take 9 (drop 2 rnd36)]
   \<and> length (take 9 (drop 2 rnd36)) \<le> 9
   \<and> (rnd36 = ''0.'' @ ds \<longrightarrow> take 9 (drop 2 rnd36) = take 9 ds)
   \<and> (rnd36 = ''0.'' @ ds \<and> set ds \<subseteq> set base36 \<longrightarrow>
        set (take 9 (drop 2 rnd36)) \<subseteq> set base36)"
proof (intro conjI impI)
  show "map inc_id (incidentsAt (snd (logCustomIncident sid pl dk btn nt src c now rnd36 now' s))
       (dayRef sid pl dk)) =
     map inc_id (incidentsAt s (dayRef sid pl dk)) @
       [''inc_'' @ dec now @ ''_'' @ take 9 (drop 2 rnd36)]"
    by (simp add: logCustomIncident_incidents incidentId_def randomSuffix_def substr_def)
  show "length (take 9 (drop 2 rnd36)) \<le> 9"
    by simp
  show "take 9 (drop 2 rnd36) = take 9 ds" if "rnd36 = ''0.'' @ ds"
    using that by simp
  show "set (take 9 (drop 2 rnd36)) \<subseteq> set base36"
    if "rnd36 = ''0.'' @ ds \<and> set ds \<subseteq> set base36"
    using that set_take_subset [of 9 ds] by auto
qed

theorem incident_id_shape_witness:
  "map inc_id (incidentsAt (snd (logCustomIncident ''school_001'' ''demo_plan_1'' ''2024-01-15''
       great_job None ''teacher'' teacher_ctx 1700000000000 ''0.3lllllllllm'' 1700000000000
       store0)) (dayRef ''school_001'' ''demo_plan_1'' ''2024-01-15'')) =
     [''inc_1700000000000_3llllllll'']
   \<and> length (take 9 (drop 2 ''0.3lllllllllm'')) \<le> 9
   \<and> ''0.3lllllllllm'' = ''0.'' @ ''3lllllllllm''
   \<and> take 9 (drop 2 ''0.3lllllllllm'') = take 9 ''3lllllllllm''
   \<and> set ''3lllllllllm'' \<subseteq> set base36
   \<and> set (take 9 (drop 2 ''0.3lllllllllm'')) \<subseteq> set base36"
proof -
  note th = incident_id_shape [where sid = "''school_001''" and pl = "''demo_plan_1''"
      and dk = "''2024-01-15''" and btn = great_job and nt = None and src = "''teacher''"
      and c = teacher_ctx and now = 1700000000000 and ?rnd36.0 = "''0.3lllllllllm''"
      and now' = 1700000000000 and s = store0 and ds = "''3lllllllllm''"]
  have e: "incidentsAt store0 (dayRef ''school_001'' ''demo_plan_1'' ''2024-01-15'') = []"
    by (simp add: incidentsAt_def store0_def)
  have shape: "''0.3lllllllllm'' = ''0.'' @ ''3lllllllllm''"
    by simp
  have digits: "set ''3lllllllllm'' \<subseteq> set base36"
    by (simp add: base36_def)
  show ?thesis
  proof (intro conjI)
    show "map inc_id (incidentsAt (snd (logCustomIncident ''school_001'' ''demo_plan_1''
         ''2024-01-15'' great_job None ''teacher'' teacher_ctx 1700000000000 ''0.3lllllllllm''
         1700000000000 store0)) (dayRef ''school_001'' ''demo_plan_1'' ''2024-01-15'')) =
       [''inc_1700000000000_3llllllll'']"
      using conjunct1 [OF th] by (simp add: e dec_example)
    show "length (take 9 (drop 2 ''0.3lllllllllm'')) \<le> 9"
      using conjunct1 [OF conjunct2 [OF th]] .
    show "''0.3lllllllllm'' = ''0.'' @ ''3lllllllllm''"
      by (rule shape)
    show "take 9 (drop 2 ''0.3lllllllllm'') = take 9 ''3lllllllllm''"
      using conjunct1 [OF conjunct2 [OF conjunct2 [OF th]]] shape by (rule mp)
    show "set ''3lllllllllm'' \<subseteq> set base36"
      by (rule digits)
    show "set (take 9 (drop 2 ''0.3lllllllllm'')) \<subseteq> set base36"
      using conjunct2 [OF conjunct2 [OF conjunct2 [OF th]]] conjI [OF shape digits] by (rule mp)
  qed
qed

text \<open>
  Claim C9 as stated fails: when \<^verbatim>\<open>Math.random()\<close> returns 0.5, whose base-36 rendering
  is \<^verbatim>\<open>0.i\<close>, the suffix is the single character \<^verbatim>\<open>i\<close>; for the double nearest to 1/36,
  rendered \<^verbatim>\<open>0.1\<close>, it is the single character \<^verbatim>\<open>1\<close>; when the random number is 0,
  rendered \<^verbatim>\<open>0\<close>, the suffix is empty.
\<close>

theorem incident_suffix_short:
  "map inc_id (incidentsAt (snd (logCustomIncident ''school_001'' ''demo_plan_1'' ''2024-01-15''
       great_job None ''teacher'' teacher_ctx 1700000000000 ''0.i'' 1700000000000 store0))
       (dayRef ''school_001'' ''demo_plan_1'' ''2024-01-15'')) = [''inc_1700000000000_i'']
   \<and> randomSuffix ''0.i'' = ''i''
   \<and> \<not> 7 \<le> length (randomSuffix ''0.i'')
   \<and> randomSuffix ''0.1'' = ''1''
   \<and> randomSuffix ''0'' = []"
proof -
  have e: "incidentsAt store0 (dayRef ''school_001'' ''demo_plan_1'' ''2024-01-15'') = []"
    by (simp add: incidentsAt_def store0_def)
  show ?thesis
    by (simp add: logCustomIncident_incidents incidentId_def randomSuffix_def substr_def
        dec_example e)
qed

section \<open>The audit context\<close>

text \<open>
  Claim C8.  For a signed-in user the audit context keeps the two identities apart: while
  imitating, \<open>actedBy\<close> is the real user's id, \<open>asUserId\<close> the imitated user's id and \<open>asRole\<close>
  the imitated role; otherwise \<open>actedBy\<close> and \<open>asUserId\<close> are both the real user's id.  The
  audit helper stores the context it is given unchanged.
\<close>

theorem audit_context_identities:
  "currentUser ss = Some u \<Longrightarrow>
     getAuditContext ss =
       Inr (case imitationState ss of
              Some im \<Rightarrow> \<lparr>actedBy = uid u, asRole = imitatedRole im, asUserId = targetUid im\<rparr>
            | None \<Rightarrow> \<lparr>actedBy = uid u, asRole = firstRole (currentClaims ss), asUserId = uid u\<rparr>)
     \<and> ctx (last (audit_logs (audit sid c act tgt det s) (auditRef sid))) = c"
  by (simp add: getAuditContext_def audit_def Let_def split: option.splits)

theorem audit_context_identities_witness:
  "getAuditContext \<lparr>currentUser = Some \<lparr>uid = ''admin_001''\<rparr>,
       currentClaims = Some \<lparr>roles = Some [''admin''], schoolId = Some ''school_001''\<rparr>,
       imitationState = Some \<lparr>targetUid = ''teacher_001'', imitatedRole = ''teacher''\<rparr>\<rparr> =
     Inr \<lparr>actedBy = ''admin_001'', asRole = ''teacher'', asUserId = ''teacher_001''\<rparr>
   \<and> getAuditContext \<lparr>currentUser = Some \<lparr>uid = ''admin_001''\<rparr>,
       currentClaims = Some \<lparr>roles = Some [''admin''], schoolId = Some ''school_001''\<rparr>,
       imitationState = None\<rparr> =
     Inr \<lparr>actedBy = ''admin_001'', asRole = ''admin'', asUserId = ''admin_001''\<rparr>
   \<and> ''admin_001'' \<noteq> ''teacher_001''"
  using audit_context_identities [where u = "\<lparr>uid = ''admin_001''\<rparr>" and c = teacher_ctx
      and sid = "''school_001''" and act = "''a''" and tgt = "''t''"
      and det = "CommentDetails ''teacher'' 0" and s = store0
      and ss = "\<lparr>currentUser = Some \<lparr>uid = ''admin_001''\<rparr>,
       currentClaims = Some \<lparr>roles = Some [''admin''], schoolId = Some ''school_001''\<rparr>,
       imitationState = Some \<lparr>targetUid = ''teacher_001'', imitatedRole = ''teacher''\<rparr>\<rparr>"]
    audit_context_identities [where u = "\<lparr>uid = ''admin_001''\<rparr>" and c = teacher_ctx
      and sid = "''school_001''" and act = "''a''" and tgt = "''t''"
      and det = "CommentDetails ''teacher'' 0" and s = store0
      and ss = "\<lparr>currentUser = Some \<lparr>uid = ''admin_001''\<rparr>,
       currentClaims = Some \<lparr>roles = Some [''admin''], schoolId = Some ''school_001''\<rparr>,
       imitationState = None\<rparr>"]
  by (simp add: firstRole_def)

section \<open>Setting custom claims\<close>

text \<open>
  Claim C6, as the code has it.  A signed-in caller whose token carries a \<^verbatim>\<open>roles\<close> claim
  without \<^verbatim>\<open>admin\<close> is rejected with permission-denied and nothing is changed; a caller
  who is not signed in is rejected as unauthenticated, also without a change; a signed-in
  caller whose token carries no \<^verbatim>\<open>roles\<close> claim at all is never rejected with
  permission-denied (the first-admin setup).
\<close>

theorem setCustomClaims_denied:
  "(auth = Some tok \<and> tok_roles tok = Some rs \<and> ''admin'' \<notin> set rs \<longrightarrow>
      setCustomClaims data auth b = (Inl PermissionDenied, b)) \<and>
   (auth = None \<longrightarrow> setCustomClaims data auth b = (Inl Unauthenticated, b)) \<and>
   (auth = Some tok \<and> tok_roles tok = None \<longrightarrow>
      fst (setCustomClaims data auth b) \<noteq> Inl PermissionDenied)"
  by (auto simp: setCustomClaims_def Let_def split: option.splits prod.splits)

theorem setCustomClaims_denied_witness:
  "tok_roles \<lparr>tok_roles = Some [''teacher'']\<rparr> = Some [''teacher'']
   \<and> ''admin'' \<notin> set [''teacher'']
   \<and> setCustomClaims make_admin (Some \<lparr>tok_roles = Some [''teacher'']\<rparr>) backend0 =
       (Inl PermissionDenied, backend0)
   \<and> setCustomClaims make_admin None backend0 = (Inl Unauthenticated, backend0)
   \<and> fst (setCustomClaims make_admin (Some \<lparr>tok_roles = None\<rparr>) backend0) \<noteq> Inl PermissionDenied"
  using setCustomClaims_denied [where auth = "Some \<lparr>tok_roles = Some [''teacher'']\<rparr>"
      and tok = "\<lparr>tok_roles = Some [''teacher'']\<rparr>" and rs = "[''teacher'']"
      and data = make_admin and b = backend0]
    setCustomClaims_denied [where auth = "None :: token option"
      and tok = "\<lparr>tok_roles = None\<rparr>" and rs = "[]" and data = make_admin and b = backend0]
    setCustomClaims_denied [where auth = "Some \<lparr>tok_roles = None\<rparr>"
      and tok = "\<lparr>tok_roles = None\<rparr>" and rs = "[]" and data = make_admin and b = backend0]
  by simp

text \<open>
  Claim C6 as stated fails: a signed-in caller without any \<^verbatim>\<open>roles\<close> claim lacks the
  admin role, yet the call goes through and writes both the custom claims and the staff
  document of the target account.
\<close>

theorem setCustomClaims_first_setup:
  "fst (setCustomClaims make_admin (Some \<lparr>tok_roles = None\<rparr>) backend0) = Inr ()
   \<and> customClaims (snd (setCustomClaims make_admin (Some \<lparr>tok_roles = None\<rparr>) backend0))
       ''user_002'' = Some (Some ([''admin''], ''school_001''))
   \<and> customClaims backend0 ''user_002'' = Some None
   \<and> staff (snd (setCustomClaims make_admin (Some \<lparr>tok_roles = None\<rparr>) backend0))
       (staffRef ''school_001'' ''user_002'') =
       Some \<lparr>st_roles = Some [''admin''], st_schoolId = Some ''school_001'',
             claimsUpdatedAt = Some 0\<rparr>
   \<and> staff backend0 (staffRef ''school_001'' ''user_002'') = None"
  by (simp add: setCustomClaims_def make_admin_def backend0_def Let_def)

end
